theory Spec2Isabelle
  imports Complex_Main
begin

section \<open>Calendar dates as the JavaScript \<open>Date\<close> object sees them\<close>

text \<open>
  A \<open>Date\<close> is modelled by its local-time fields: \<open>getFullYear()\<close>, \<open>getMonth()\<close>
  (0 = January .. 11 = December), \<open>getDate()\<close> (1 .. 31) and the milliseconds elapsed since
  local midnight.  Daylight-saving shifts are not modelled.
\<close>

record jsdate =
  year :: int
  month :: nat
  day :: nat
  ms :: nat

definition isLeapYear :: "int \<Rightarrow> bool" where
  "isLeapYear y = ((y mod 4 = 0 \<and> y mod 100 \<noteq> 0) \<or> y mod 400 = 0)"

definition daysInMonth :: "int \<Rightarrow> nat \<Rightarrow> nat" where
  "daysInMonth y m =
     (if m = 1 then (if isLeapYear y then 29 else 28)
      else if m = 3 \<or> m = 5 \<or> m = 8 \<or> m = 10 then 30
      else 31)"

definition validDate :: "jsdate \<Rightarrow> bool" where
  "validDate d = (month d < 12 \<and> 1 \<le> day d \<and> day d \<le> daysInMonth (year d) (month d))"

text \<open>
  \<open>rollDays y m d\<close> carries a day number that is past the end of month \<open>m\<close> over into the
  following months, as the \<open>Date\<close> constructor does with an out-of-range day.
\<close>

function rollDays :: "int \<Rightarrow> nat \<Rightarrow> nat \<Rightarrow> jsdate" where
  "rollDays y m d =
     (if d \<le> daysInMonth y m then \<lparr>year = y, month = m, day = d, ms = 0\<rparr>
      else if 11 \<le> m then rollDays (y + 1) 0 (d - daysInMonth y m)
      else rollDays y (m + 1) (d - daysInMonth y m))"
  by pat_completeness auto
termination
  by (relation "measure (\<lambda>(y, m, d). d)") (auto simp: daysInMonth_def)

text \<open>The constructor maps a two-digit year to the twentieth century.\<close>

definition makeFullYear :: "int \<Rightarrow> int" where
  "makeFullYear y = (if 0 \<le> y \<and> y \<le> 99 then 1900 + y else y)"

text \<open>
  \<open>new Date(y, m, d)\<close> for a month index \<open>m \<ge> 0\<close> and a day \<open>d \<ge> 0\<close>: months beyond
  December move into the following years, day 0 is the last day of the month before, and a
  day past the end of the month rolls forward.  The time of day is midnight.
\<close>

definition newDate :: "int \<Rightarrow> nat \<Rightarrow> nat \<Rightarrow> jsdate" where
  "newDate y m d =
     (let y' = makeFullYear y + int (m div 12); m' = m mod 12
      in if d = 0
         then (if m' = 0 then \<lparr>year = y' - 1, month = 11, day = 31, ms = 0\<rparr>
               else \<lparr>year = y', month = m' - 1, day = daysInMonth y' (m' - 1), ms = 0\<rparr>)
         else rollDays y' m' d)"

text \<open>\<open>dt.setDate(d)\<close> re-normalises year, month and the new day, keeping the time of day.\<close>

definition setDate :: "jsdate \<Rightarrow> nat \<Rightarrow> jsdate" where
  "setDate dt d =
     (let r = (if d = 0
               then (if month dt = 0 then \<lparr>year = year dt - 1, month = 11, day = 31, ms = 0\<rparr>
                     else \<lparr>year = year dt, month = month dt - 1,
                            day = daysInMonth (year dt) (month dt - 1), ms = 0\<rparr>)
               else rollDays (year dt) (month dt) d)
      in r\<lparr>ms := ms dt\<rparr>)"

text \<open>Comparison of two dates by their instant (\<open>a > b\<close> in the source).\<close>

definition date_gt :: "jsdate \<Rightarrow> jsdate \<Rightarrow> bool" where
  "date_gt a b =
     (year a > year b \<or> (year a = year b \<and>
       (month a > month b \<or> (month a = month b \<and>
         (day a > day b \<or> (day a = day b \<and> ms a > ms b))))))"

subsection \<open>\<open>calculateNextBillingDate\<close>\<close>

text \<open>
  The source reads the clock itself (\<open>new Date()\<close>); here the instant read is the
  parameter \<open>now\<close>.  The second parameter of the source defaults to \<open>false\<close>.
\<close>

definition calculateNextBillingDate :: "jsdate \<Rightarrow> nat \<Rightarrow> bool \<Rightarrow> jsdate" where
  "calculateNextBillingDate now billingDay isAnnual =
     (if isAnnual then newDate (year now + 1) (month now) billingDay
      else (let nextDate = newDate (year now) (month now + 1) billingDay
            in if day nextDate \<noteq> billingDay then setDate nextDate 0 else nextDate))"


section \<open>The persistent data model\<close>

text \<open>
  One record per table, with the columns the provisioning pipeline reads or writes.  Row
  identifiers (generated by the persistence layer) are natural numbers drawn from a counter.
  Timestamps the persistence layer maintains by itself (\<open>createdAt\<close>, \<open>updatedAt\<close>) are
  not part of the model.  Money amounts are exact rationals.
\<close>

record application =
  app_id :: nat
  app_email :: string
  app_firstName :: string
  app_lastName :: string
  app_about :: "string option"
  app_customDesign :: bool
  app_paymentPlan :: string
  app_stripeSessionId :: "string option"
  app_status :: string
  app_userId :: "nat option"
  app_processed :: bool
  app_processedAt :: "jsdate option"
  app_tempPassword :: "string option"

record user =
  user_id :: nat
  user_email :: string
  user_password :: "string option"
  user_provider :: string
  user_tenantId :: nat

record profile =
  prof_id :: nat
  prof_userId :: nat
  prof_firstName :: "string option"
  prof_lastName :: "string option"
  prof_bio :: "string option"

record billing =
  bill_id :: nat
  bill_userId :: nat
  bill_applicationId :: nat
  bill_stripeCustomerId :: string
  bill_stripeSubscriptionId :: "string option"
  bill_billingType :: string
  bill_billingDay :: "nat option"
  bill_nextBillingDate :: "jsdate option"
  bill_amount :: rat
  bill_initialAmount :: "rat option"
  bill_recurringAmount :: "rat option"
  bill_setupFee :: "rat option"
  bill_customDesignFee :: "rat option"
  bill_currency :: string
  bill_status :: string
  bill_cancelledAt :: "jsdate option"

record tenant =
  tenant_id :: nat
  tenant_name :: string
  tenant_description :: "string option"

record db =
  applications :: "application list"
  users :: "user list"
  profiles :: "profile list"
  billings :: "billing list"
  tenants :: "tenant list"
  nextId :: nat

subsection \<open>Failures\<close>

text \<open>
  Every database or payment-processor call can fail for reasons outside the program
  (connection loss, lock timeout, an injected fault).  The points of failure are named, and
  an oracle in the environment says which of them fail during one invocation.
\<close>

datatype step =
    FindApplication | FindUser | FindTenant | CreateTenant | CreateUser | CreateProfile
  | CreateBilling | UpdateApplication | Commit
  | FindBilling | UpdateBilling | StripeRefund | StripeSubscriptionUpdate
  | SendEmail | SendAlert

datatype error =
    ApplicationNotFound
  | RecordNotFound
  | UniqueConstraint string
  | MissingRequiredField string
  | Fault step
  | TransactionTimeout
  | FailedToProcessPayment error
  | NoBillingInformation
  | AlreadyCancelled
  | NotCancelled
  | StripeError

text \<open>
  What one invocation reads from outside the database: the clock, the freshly generated
  temporary password with its hash, and the fault oracle.  The source reads the clock several
  times during one invocation; the instants are identified here.
\<close>

record env =
  env_now :: jsdate
  env_tempPassword :: string
  env_hashedPassword :: string
  env_faults :: "step \<Rightarrow> bool"

subsection \<open>Database operations\<close>

text \<open>
  An operation takes the database and returns a result or an error, together with the
  database it leaves behind.  An error does not undo the writes made before it: undoing
  them is what \<open>transaction\<close> below does.
\<close>

type_synonym 'a tx = "db \<Rightarrow> (error + 'a) \<times> db"

definition returnT :: "'a \<Rightarrow> 'a tx" where
  "returnT x = (\<lambda>s. (Inr x, s))"

definition throwT :: "error \<Rightarrow> 'a tx" where
  "throwT e = (\<lambda>s. (Inl e, s))"

definition bindT :: "'a tx \<Rightarrow> ('a \<Rightarrow> 'b tx) \<Rightarrow> 'b tx" where
  "bindT m f = (\<lambda>s. case m s of (Inl e, s') \<Rightarrow> (Inl e, s') | (Inr x, s') \<Rightarrow> f x s')"

definition at_step :: "env \<Rightarrow> step \<Rightarrow> 'a tx \<Rightarrow> 'a tx" where
  "at_step e st m = (\<lambda>s. if env_faults e st then (Inl (Fault st), s) else m s)"

definition application_findFirst :: "env \<Rightarrow> string \<Rightarrow> application option tx" where
  "application_findFirst e sessionId =
     at_step e FindApplication
       (\<lambda>s. (Inr (find (\<lambda>a. app_stripeSessionId a = Some sessionId) (applications s)), s))"

definition user_findUnique :: "env \<Rightarrow> string \<Rightarrow> user option tx" where
  "user_findUnique e email =
     at_step e FindUser (\<lambda>s. (Inr (find (\<lambda>u. user_email u = email) (users s)), s))"

text \<open>
  \<open>application.update\<close> addresses the row by its id.  The column \<open>userId\<close> carries a unique
  index (\<open>applications_userId_key\<close> in the migrations; a user has at most one application):
  writing a user id that another row already holds is refused.
\<close>

definition application_update :: "env \<Rightarrow> nat \<Rightarrow> (application \<Rightarrow> application) \<Rightarrow> application tx" where
  "application_update e aid upd =
     at_step e UpdateApplication
       (\<lambda>s. case find (\<lambda>a. app_id a = aid) (applications s) of
               None \<Rightarrow> (Inl RecordNotFound, s)
             | Some a \<Rightarrow>
                 if app_userId (upd a) \<noteq> app_userId a \<and> app_userId (upd a) \<noteq> None \<and>
                    (\<exists>x \<in> set (applications s). app_id x \<noteq> aid \<and> app_userId x = app_userId (upd a))
                 then (Inl (UniqueConstraint ''applications_userId_key''), s)
                 else (Inr (upd a),
                       s\<lparr>applications := map (\<lambda>x. if app_id x = aid then upd x else x) (applications s)\<rparr>))"

definition tenant_findFirst :: "env \<Rightarrow> tenant option tx" where
  "tenant_findFirst e =
     at_step e FindTenant (\<lambda>s. (Inr (case tenants s of [] \<Rightarrow> None | t # _ \<Rightarrow> Some t), s))"

definition tenant_create :: "env \<Rightarrow> string \<Rightarrow> string option \<Rightarrow> tenant tx" where
  "tenant_create e name description =
     at_step e CreateTenant
       (\<lambda>s. let t = \<lparr>tenant_id = nextId s, tenant_name = name, tenant_description = description\<rparr>
             in (Inr t, s\<lparr>tenants := tenants s @ [t], nextId := nextId s + 1\<rparr>))"

definition getDefaultTenant :: "env \<Rightarrow> tenant tx" where
  "getDefaultTenant e =
     bindT (tenant_findFirst e) (\<lambda>found.
       case found of
         Some t \<Rightarrow> returnT t
       | None \<Rightarrow> tenant_create e ''Default Tenant'' (Some ''Default tenant for new users''))"

definition user_create :: "env \<Rightarrow> string \<Rightarrow> string \<Rightarrow> string \<Rightarrow> nat \<Rightarrow> user tx" where
  "user_create e email password provider tenantId =
     at_step e CreateUser
       (\<lambda>s. if \<exists>u \<in> set (users s). user_email u = email
             then (Inl (UniqueConstraint ''users_email_key''), s)
             else let u = \<lparr>user_id = nextId s, user_email = email, user_password = Some password,
                            user_provider = provider, user_tenantId = tenantId\<rparr>
                  in (Inr u, s\<lparr>users := users s @ [u], nextId := nextId s + 1\<rparr>))"

definition profile_create :: "env \<Rightarrow> nat \<Rightarrow> string \<Rightarrow> string \<Rightarrow> string option \<Rightarrow> profile tx" where
  "profile_create e userId firstName lastName bio =
     at_step e CreateProfile
       (\<lambda>s. if \<exists>p \<in> set (profiles s). prof_userId p = userId
             then (Inl (UniqueConstraint ''profiles_userId_key''), s)
             else let p = \<lparr>prof_id = nextId s, prof_userId = userId, prof_firstName = Some firstName,
                            prof_lastName = Some lastName, prof_bio = bio\<rparr>
                  in (Inr p, s\<lparr>profiles := profiles s @ [p], nextId := nextId s + 1\<rparr>))"

text \<open>
  \<open>billing.create\<close> takes the row without its id.  \<open>stripeCustomerId\<close> is a required
  column, and four columns carry unique indexes (a null subscription reference is exempt).
\<close>

definition billing_create :: "env \<Rightarrow> string option \<Rightarrow> billing \<Rightarrow> billing tx" where
  "billing_create e customer row =
     at_step e CreateBilling
       (\<lambda>s. case customer of
               None \<Rightarrow> (Inl (MissingRequiredField ''stripeCustomerId''), s)
             | Some c \<Rightarrow>
                 if \<exists>b \<in> set (billings s). bill_stripeCustomerId b = c
                 then (Inl (UniqueConstraint ''billing_stripeCustomerId_key''), s)
                 else if bill_stripeSubscriptionId row \<noteq> None \<and>
                         (\<exists>b \<in> set (billings s). bill_stripeSubscriptionId b = bill_stripeSubscriptionId row)
                 then (Inl (UniqueConstraint ''billing_stripeSubscriptionId_key''), s)
                 else if \<exists>b \<in> set (billings s). bill_userId b = bill_userId row
                 then (Inl (UniqueConstraint ''billing_userId_key''), s)
                 else if \<exists>b \<in> set (billings s). bill_applicationId b = bill_applicationId row
                 then (Inl (UniqueConstraint ''billing_applicationId_key''), s)
                 else let b = row\<lparr>bill_id := nextId s, bill_stripeCustomerId := c\<rparr>
                      in (Inr b, s\<lparr>billings := billings s @ [b], nextId := nextId s + 1\<rparr>))"

text \<open>
  \<open>$transaction\<close>: the writes of the body reach the database only if the body returns and
  the commit succeeds; otherwise the database is the one the transaction started from.
\<close>

definition transaction :: "env \<Rightarrow> 'a tx \<Rightarrow> 'a tx" where
  "transaction e body =
     (\<lambda>s. case body s of
             (Inl err, s') \<Rightarrow> (Inl err, s)
           | (Inr v, s') \<Rightarrow> if env_faults e Commit then (Inl TransactionTimeout, s) else (Inr v, s'))"


section \<open>Account provisioning\<close>

text \<open>
  The checkout session as delivered by the payment processor.  \<open>customer\<close> and
  \<open>subscription\<close> arrive either as an id or as an expanded object with an id; the model
  holds the id the source extracts from either form, or nothing.
\<close>

record stripe_session =
  sess_id :: string
  sess_customer :: "string option"
  sess_subscription :: "string option"
  sess_amount_total :: "nat option"
  sess_payment_intent :: "string option"

text \<open>
  The object \<open>processPaymentAndCreateUser\<close> returns.  A property the source leaves out
  of the object is \<open>False\<close> (for the two flags) or \<open>None\<close> here; \<open>None\<close> also stands
  for \<open>null\<close>.
\<close>

record outcome =
  success :: bool
  alreadyProcessed :: bool
  userExists :: bool
  out_userId :: "nat option"
  out_email :: "string option"
  out_tempPassword :: "string option"
  out_firstName :: "string option"
  out_lastName :: "string option"

definition alreadyProcessedOutcome :: "nat option \<Rightarrow> outcome" where
  "alreadyProcessedOutcome uid =
     \<lparr>success = True, alreadyProcessed = True, userExists = False, out_userId = uid,
      out_email = None, out_tempPassword = None, out_firstName = None, out_lastName = None\<rparr>"

definition userExistsOutcome :: "nat \<Rightarrow> outcome" where
  "userExistsOutcome uid =
     \<lparr>success = True, alreadyProcessed = False, userExists = True, out_userId = Some uid,
      out_email = None, out_tempPassword = None, out_firstName = None, out_lastName = None\<rparr>"

definition newBillingRow :: "env \<Rightarrow> stripe_session \<Rightarrow> application \<Rightarrow> user \<Rightarrow> billing" where
  "newBillingRow e stripeSession application usr =
     (let isAnnual = (app_paymentPlan application = ''annual'');
          billingDay = day (env_now e);
          nextBillingDate = calculateNextBillingDate (env_now e) billingDay isAnnual;
          amountInPence = (case sess_amount_total stripeSession of None \<Rightarrow> 0 | Some n \<Rightarrow> n);
          totalAmount = rat_of_nat amountInPence / 100;
          setupFee = 60;
          customDesignFee = (if app_customDesign application then 99 else 0);
          recurringAmount = (if isAnnual then 23988 / 100 else 2499 / 100);
          initialAmount = setupFee + recurringAmount + customDesignFee
      in \<lparr>bill_id = 0,
          bill_userId = user_id usr,
          bill_applicationId = app_id application,
          bill_stripeCustomerId = [],
          bill_stripeSubscriptionId = sess_subscription stripeSession,
          bill_billingType = app_paymentPlan application,
          bill_billingDay = Some billingDay,
          bill_nextBillingDate = Some nextBillingDate,
          bill_amount = totalAmount,
          bill_initialAmount = Some initialAmount,
          bill_recurringAmount = Some recurringAmount,
          bill_setupFee = Some setupFee,
          bill_customDesignFee = (if customDesignFee > 0 then Some customDesignFee else None),
          bill_currency = ''gbp'',
          bill_status = ''active'',
          bill_cancelledAt = None\<rparr>)"

text \<open>The callback handed to \<open>$transaction\<close>, steps 1 to 9 of the source.\<close>

definition provisionBody :: "env \<Rightarrow> string \<Rightarrow> stripe_session \<Rightarrow> outcome tx" where
  "provisionBody e sessionId stripeSession =
     bindT (application_findFirst e sessionId) (\<lambda>found.
       case found of
         None \<Rightarrow> throwT ApplicationNotFound
       | Some application \<Rightarrow>
           if app_processed application
           then returnT (alreadyProcessedOutcome (app_userId application))
           else
             bindT (user_findUnique e (app_email application)) (\<lambda>existingUser.
               case existingUser of
                 Some eu \<Rightarrow>
                   bindT (application_update e (app_id application)
                            (\<lambda>a. a\<lparr>app_userId := Some (user_id eu), app_processed := True,
                                   app_processedAt := Some (env_now e), app_status := ''completed''\<rparr>))
                     (\<lambda>_. returnT (userExistsOutcome (user_id eu)))
               | None \<Rightarrow>
                   bindT (getDefaultTenant e) (\<lambda>tnt.
                   bindT (user_create e (app_email application) (env_hashedPassword e) ''email''
                            (tenant_id tnt)) (\<lambda>usr.
                   bindT (profile_create e (user_id usr) (app_firstName application)
                            (app_lastName application) (app_about application)) (\<lambda>_.
                   bindT (billing_create e (sess_customer stripeSession)
                            (newBillingRow e stripeSession application usr)) (\<lambda>_.
                   bindT (application_update e (app_id application)
                            (\<lambda>a. a\<lparr>app_userId := Some (user_id usr), app_processed := True,
                                   app_processedAt := Some (env_now e), app_status := ''completed'',
                                   app_tempPassword := Some (env_hashedPassword e)\<rparr>)) (\<lambda>_.
                   returnT
                     \<lparr>success = True, alreadyProcessed = False, userExists = False,
                      out_userId = Some (user_id usr), out_email = Some (user_email usr),
                      out_tempPassword = Some (env_tempPassword e),
                      out_firstName = Some (app_firstName application),
                      out_lastName = Some (app_lastName application)\<rparr>)))))))"

text \<open>
  The transaction inside the source's \<open>try\<close>; the \<open>catch\<close> rethrows the error under a new
  message.
\<close>

definition processPaymentAndCreateUser :: "env \<Rightarrow> string \<Rightarrow> stripe_session \<Rightarrow> outcome tx" where
  "processPaymentAndCreateUser e sessionId stripeSession =
     (\<lambda>s. case transaction e (provisionBody e sessionId stripeSession) s of
             (Inl err, s') \<Rightarrow> (Inl (FailedToProcessPayment err), s')
           | (Inr r, s') \<Rightarrow> (Inr r, s'))"


section \<open>Compensation\<close>

text \<open>
  Outside the database, the handler calls the payment processor and the mail service.  The
  world records every refund request made (by payment reference), every refund notice sent
  (by recipient), and every operator alert (by its additional information).  The error that
  made provisioning fail only enters the messages and is left out.  A failing refund request
  is a fault at \<open>StripeRefund\<close>; the request is recorded all the same.  The source tests
  \<open>!session.payment_intent\<close>, so a null and an empty payment reference are both absent.
\<close>

datatype alert = NoPaymentIntent | RefundIssued | ManualRefundRequired

record world =
  w_db :: db
  w_refundCalls :: "string list"
  w_refundNotices :: "string list"
  w_alerts :: "alert list"






section \<open>Subscription state synchronizer\<close>

record stripe_subscription =
  sub_id :: string
  sub_status :: string
  sub_cancel_at_period_end :: bool

text \<open>
  An invoice carries its subscription as an id or as an expanded object; the model holds
  the id the source extracts, or nothing.
\<close>

record stripe_invoice =
  inv_id :: string
  inv_subscription :: "string option"

definition billing_findUnique_subscription :: "env \<Rightarrow> string \<Rightarrow> billing option tx" where
  "billing_findUnique_subscription e subscriptionId =
     at_step e FindBilling
       (\<lambda>s. (Inr (find (\<lambda>b. bill_stripeSubscriptionId b = Some subscriptionId) (billings s)), s))"

definition billing_findUnique_userId :: "env \<Rightarrow> nat \<Rightarrow> billing option tx" where
  "billing_findUnique_userId e userId =
     at_step e FindBilling (\<lambda>s. (Inr (find (\<lambda>b. bill_userId b = userId) (billings s)), s))"

definition billing_findUnique_id :: "env \<Rightarrow> nat \<Rightarrow> billing option tx" where
  "billing_findUnique_id e bid =
     at_step e FindBilling (\<lambda>s. (Inr (find (\<lambda>b. bill_id b = bid) (billings s)), s))"

text \<open>
  \<open>billing.update\<close>: the row is addressed by a unique column (\<open>id\<close> or \<open>userId\<close>), given
  here as the predicate \<open>sel\<close>; the update fails when no row matches.
\<close>

definition billing_update :: "env \<Rightarrow> (billing \<Rightarrow> bool) \<Rightarrow> (billing \<Rightarrow> billing) \<Rightarrow> billing tx" where
  "billing_update e sel upd =
     at_step e UpdateBilling
       (\<lambda>s. case find sel (billings s) of
               None \<Rightarrow> (Inl RecordNotFound, s)
             | Some b \<Rightarrow>
                 (Inr (upd b), s\<lparr>billings := map (\<lambda>x. if sel x then upd x else x) (billings s)\<rparr>))"

text \<open>
  The handlers catch and log every error, so each of them maps a database to a database.
\<close>

definition subscriptionTarget :: "jsdate \<Rightarrow> stripe_subscription \<Rightarrow> billing \<Rightarrow> string \<times> jsdate option" where
  "subscriptionTarget now subscription billing =
     (if sub_cancel_at_period_end subscription
      then (''cancelled'',
            (case bill_cancelledAt billing of Some t \<Rightarrow> Some t | None \<Rightarrow> Some now))
      else if sub_status subscription = ''past_due''
      then (''past_due'', bill_cancelledAt billing)
      else if sub_status subscription = ''canceled'' \<or> sub_status subscription = ''unpaid''
      then (''cancelled'', Some now)
      else if sub_status subscription = ''active''
      then (''active'', None)
      else (''active'', bill_cancelledAt billing))"

definition handleSubscriptionUpdated :: "env \<Rightarrow> stripe_subscription \<Rightarrow> db \<Rightarrow> db" where
  "handleSubscriptionUpdated e subscription s =
     (case billing_findUnique_subscription e (sub_id subscription) s of
        (Inl err, _) \<Rightarrow> s
      | (Inr None, _) \<Rightarrow> s
      | (Inr (Some billing), _) \<Rightarrow>
          (case subscriptionTarget (env_now e) subscription billing of
             (status, cancelledAt) \<Rightarrow>
               (case billing_update e (\<lambda>x. bill_id x = bill_id billing)
                       (\<lambda>x. x\<lparr>bill_status := status, bill_cancelledAt := cancelledAt\<rparr>) s of
                  (Inl err, _) \<Rightarrow> s
                | (Inr _, s') \<Rightarrow> s')))"

definition handleSubscriptionDeleted :: "env \<Rightarrow> stripe_subscription \<Rightarrow> db \<Rightarrow> db" where
  "handleSubscriptionDeleted e subscription s =
     (case billing_findUnique_subscription e (sub_id subscription) s of
        (Inl err, _) \<Rightarrow> s
      | (Inr None, _) \<Rightarrow> s
      | (Inr (Some billing), _) \<Rightarrow>
          (case billing_update e (\<lambda>x. bill_id x = bill_id billing)
                  (\<lambda>x. x\<lparr>bill_status := ''cancelled'', bill_cancelledAt := Some (env_now e)\<rparr>) s of
             (Inl err, _) \<Rightarrow> s
           | (Inr _, s') \<Rightarrow> s'))"

text \<open>
  The source calls \<open>calculateNextBillingDate(billing.billingDay)\<close> with one argument, so
  the second parameter takes its default \<open>false\<close>.  A null or zero \<open>billingDay\<close> and an
  empty subscription reference are falsy.
\<close>

definition handleInvoicePaymentSucceeded :: "env \<Rightarrow> stripe_invoice \<Rightarrow> db \<Rightarrow> db" where
  "handleInvoicePaymentSucceeded e invoice s =
     (case inv_subscription invoice of
        None \<Rightarrow> s
      | Some subscriptionId \<Rightarrow>
          if subscriptionId = [] then s
          else
            (case billing_findUnique_subscription e subscriptionId s of
               (Inl err, _) \<Rightarrow> s
             | (Inr None, _) \<Rightarrow> s
             | (Inr (Some billing), _) \<Rightarrow>
                 (let nextBillingDate =
                        (case bill_billingDay billing of
                           None \<Rightarrow> None
                         | Some d \<Rightarrow>
                             if d = 0 then None
                             else Some (calculateNextBillingDate (env_now e) d False))
                  in case billing_update e (\<lambda>x. bill_id x = bill_id billing)
                            (\<lambda>x. x\<lparr>bill_status := ''active'',
                                   bill_nextBillingDate := nextBillingDate\<rparr>) s of
                       (Inl err, _) \<Rightarrow> s
                     | (Inr _, s') \<Rightarrow> s')))"

definition handleInvoicePaymentFailed :: "env \<Rightarrow> stripe_invoice \<Rightarrow> db \<Rightarrow> db" where
  "handleInvoicePaymentFailed e invoice s =
     (case inv_subscription invoice of
        None \<Rightarrow> s
      | Some subscriptionId \<Rightarrow>
          if subscriptionId = [] then s
          else
            (case billing_findUnique_subscription e subscriptionId s of
               (Inl err, _) \<Rightarrow> s
             | (Inr None, _) \<Rightarrow> s
             | (Inr (Some billing), _) \<Rightarrow>
                 (case billing_update e (\<lambda>x. bill_id x = bill_id billing)
                         (\<lambda>x. x\<lparr>bill_status := ''past_due''\<rparr>) s of
                    (Inl err, _) \<Rightarrow> s
                  | (Inr _, s') \<Rightarrow> s')))"

section \<open>Billing service\<close>

text \<open>
  The user-initiated actions raise their errors to the caller.  The call to the payment
  processor is made only when the billing row has a subscription reference.
\<close>

definition stripe_subscriptions_update :: "env \<Rightarrow> string option \<Rightarrow> unit tx" where
  "stripe_subscriptions_update e subscriptionId =
     (\<lambda>s. case subscriptionId of
             None \<Rightarrow> (Inr (), s)
           | Some sid \<Rightarrow>
               if sid = [] then (Inr (), s)
               else if env_faults e StripeSubscriptionUpdate then (Inl StripeError, s)
               else (Inr (), s))"

definition cancelSubscription :: "env \<Rightarrow> nat \<Rightarrow> billing tx" where
  "cancelSubscription e userId =
     bindT (billing_findUnique_userId e userId) (\<lambda>found.
       case found of
         None \<Rightarrow> throwT NoBillingInformation
       | Some billing \<Rightarrow>
           if bill_status billing = ''cancelled'' then throwT AlreadyCancelled
           else
             bindT (stripe_subscriptions_update e (bill_stripeSubscriptionId billing)) (\<lambda>_.
               billing_update e (\<lambda>x. bill_userId x = userId)
                 (\<lambda>x. x\<lparr>bill_status := ''cancelled'', bill_cancelledAt := Some (env_now e)\<rparr>)))"

definition reactivateSubscription :: "env \<Rightarrow> nat \<Rightarrow> billing tx" where
  "reactivateSubscription e userId =
     bindT (billing_findUnique_userId e userId) (\<lambda>found.
       case found of
         None \<Rightarrow> throwT NoBillingInformation
       | Some billing \<Rightarrow>
           if bill_status billing \<noteq> ''cancelled'' then throwT NotCancelled
           else
             bindT (stripe_subscriptions_update e (bill_stripeSubscriptionId billing)) (\<lambda>_.
               billing_update e (\<lambda>x. bill_userId x = userId)
                 (\<lambda>x. x\<lparr>bill_status := ''active'', bill_cancelledAt := None\<rparr>)))"

text \<open>
  The answer of \<open>getSubscriptionStatus\<close>.  \<open>hasAccess\<close> is the value of
  \<open>a || (b && d && c)\<close> with \<open>d\<close> a date or null, so it is \<open>true\<close>, \<open>false\<close> or
  \<open>null\<close>; \<open>None\<close> stands for \<open>null\<close>.
\<close>

record subscription_details =
  ss_status :: string
  ss_type :: string
  ss_isActive :: bool
  ss_isCancelled :: bool
  ss_hasAccess :: "bool option"
  ss_accessUntil :: "jsdate option"
  ss_canCancel :: bool
  ss_canReactivate :: bool

datatype subscription_status = NoSubscription | Subscription subscription_details

definition hasAccessOf :: "jsdate \<Rightarrow> billing \<Rightarrow> bool option" where
  "hasAccessOf now billing =
     (if bill_status billing = ''active'' then Some True
      else if bill_status billing = ''cancelled''
      then (case bill_nextBillingDate billing of
              None \<Rightarrow> None
            | Some t \<Rightarrow> Some (date_gt t now))
      else Some False)"

definition getSubscriptionStatus :: "env \<Rightarrow> nat \<Rightarrow> db \<Rightarrow> error + subscription_status" where
  "getSubscriptionStatus e userId s =
     (case billing_findUnique_userId e userId s of
        (Inl err, _) \<Rightarrow> Inl err
      | (Inr None, _) \<Rightarrow> Inr NoSubscription
      | (Inr (Some billing), _) \<Rightarrow>
          Inr (Subscription
            \<lparr>ss_status = bill_status billing,
             ss_type = bill_billingType billing,
             ss_isActive = (bill_status billing = ''active''),
             ss_isCancelled = (bill_status billing = ''cancelled''),
             ss_hasAccess = hasAccessOf (env_now e) billing,
             ss_accessUntil =
               (if bill_status billing = ''cancelled'' then bill_nextBillingDate billing else None),
             ss_canCancel =
               ((bill_billingType billing = ''monthly'' \<or> bill_billingType billing = ''annual'')
                \<and> bill_status billing = ''active''),
             ss_canReactivate =
               ((bill_billingType billing = ''monthly'' \<or> bill_billingType billing = ''annual'')
                \<and> bill_status billing = ''cancelled'')\<rparr>))"

section \<open>Administration\<close>

definition updateBillingStatus :: "env \<Rightarrow> nat \<Rightarrow> string \<Rightarrow> billing tx" where
  "updateBillingStatus e bid newStatus =
     bindT (billing_findUnique_id e bid) (\<lambda>found.
       case found of
         None \<Rightarrow> throwT RecordNotFound
       | Some billing \<Rightarrow>
           billing_update e (\<lambda>x. bill_id x = bid)
             (\<lambda>x. if newStatus = ''cancelled'' \<and> bill_cancelledAt billing = None
                   then x\<lparr>bill_status := newStatus, bill_cancelledAt := Some (env_now e)\<rparr>
                   else x\<lparr>bill_status := newStatus\<rparr>))"

section \<open>The operations that create or change a Billing row\<close>

text \<open>
  Provisioning, the four webhook handlers that write a Billing row, and the two
  user-initiated actions, as one function from an operation and a database to the database
  left behind.
\<close>

datatype operation =
    Provision string stripe_session
  | SubscriptionUpdated stripe_subscription
  | SubscriptionDeleted stripe_subscription
  | InvoicePaymentSucceeded stripe_invoice
  | InvoicePaymentFailed stripe_invoice
  | CancelSubscription nat
  | ReactivateSubscription nat

fun perform :: "env \<Rightarrow> operation \<Rightarrow> db \<Rightarrow> db" where
  "perform e (Provision sessionId session) s = snd (processPaymentAndCreateUser e sessionId session s)"
| "perform e (SubscriptionUpdated sub) s = handleSubscriptionUpdated e sub s"
| "perform e (SubscriptionDeleted sub) s = handleSubscriptionDeleted e sub s"
| "perform e (InvoicePaymentSucceeded invoice) s = handleInvoicePaymentSucceeded e invoice s"
| "perform e (InvoicePaymentFailed invoice) s = handleInvoicePaymentFailed e invoice s"
| "perform e (CancelSubscription userId) s = snd (cancelSubscription e userId s)"
| "perform e (ReactivateSubscription userId) s = snd (reactivateSubscription e userId s)"

definition billing_ok :: "billing \<Rightarrow> bool" where
  "billing_ok b = (bill_status b = ''cancelled'' \<longrightarrow> bill_cancelledAt b \<noteq> None)"

definition billings_ok :: "db \<Rightarrow> bool" where
  "billings_ok s = list_all billing_ok (billings s)"

section \<open>Auxiliary notions for the proofs\<close>

text \<open>
  \<open>preserves P m\<close>: the operation \<open>m\<close> leaves a database satisfying \<open>P\<close> in a database
  satisfying \<open>P\<close>, whether it succeeds or fails.
\<close>

definition preserves :: "(db \<Rightarrow> bool) \<Rightarrow> 'a tx \<Rightarrow> bool" where
  "preserves P m = (\<forall>s. P s \<longrightarrow> P (snd (m s)))"

text \<open>The four columns both provisioning paths write when they link a user.\<close>

definition linked :: "env \<Rightarrow> nat \<Rightarrow> application \<Rightarrow> application" where
  "linked e uid a = a\<lparr>app_userId := Some uid, app_processed := True,
                       app_processedAt := Some (env_now e), app_status := ''completed''\<rparr>"

section \<open>Sample data\<close>

definition noFaults :: "step \<Rightarrow> bool" where
  "noFaults = (\<lambda>st. False)"

definition faultAt :: "step \<Rightarrow> step \<Rightarrow> bool" where
  "faultAt f = (\<lambda>st. st = f)"

definition noon :: "int \<Rightarrow> nat \<Rightarrow> nat \<Rightarrow> jsdate" where
  "noon y m d = \<lparr>year = y, month = m, day = d, ms = 43200000\<rparr>"

definition midnight :: "int \<Rightarrow> nat \<Rightarrow> nat \<Rightarrow> jsdate" where
  "midnight y m d = \<lparr>year = y, month = m, day = d, ms = 0\<rparr>"

definition sampleEnv :: "jsdate \<Rightarrow> (step \<Rightarrow> bool) \<Rightarrow> env" where
  "sampleEnv now fl =
     \<lparr>env_now = now, env_tempPassword = ''aB3kL9mQ2xZ!'',
      env_hashedPassword = ''bcrypt(aB3kL9mQ2xZ!)'', env_faults = fl\<rparr>"

definition sampleSession :: "string \<Rightarrow> string \<Rightarrow> string \<Rightarrow> stripe_session" where
  "sampleSession sid cus sub =
     \<lparr>sess_id = sid, sess_customer = Some cus, sess_subscription = Some sub,
      sess_amount_total = Some 8499, sess_payment_intent = Some ''pi_A''\<rparr>"

definition sampleTenant :: tenant where
  "sampleTenant = \<lparr>tenant_id = 1, tenant_name = ''Default Tenant'', tenant_description = None\<rparr>"

definition pendingApplication :: "nat \<Rightarrow> string \<Rightarrow> string \<Rightarrow> application" where
  "pendingApplication i plan sid =
     \<lparr>app_id = i, app_email = ''ada@example.com'', app_firstName = ''Ada'',
      app_lastName = ''Byron'', app_about = None, app_customDesign = False,
      app_paymentPlan = plan, app_stripeSessionId = Some sid, app_status = ''pending'',
      app_userId = None, app_processed = False, app_processedAt = None,
      app_tempPassword = None\<rparr>"

text \<open>A database holding one pending application for the checkout session \<open>cs_A\<close>.\<close>

definition pendingDb :: "string \<Rightarrow> db" where
  "pendingDb plan =
     \<lparr>applications = [pendingApplication 2 plan ''cs_A''], users = [], profiles = [],
      billings = [], tenants = [sampleTenant], nextId = 3\<rparr>"

definition sampleUser :: user where
  "sampleUser =
     \<lparr>user_id = 3, user_email = ''ada@example.com'',
      user_password = Some ''bcrypt(aB3kL9mQ2xZ!)'', user_provider = ''email'',
      user_tenantId = 1\<rparr>"

definition sampleProfile :: profile where
  "sampleProfile =
     \<lparr>prof_id = 4, prof_userId = 3, prof_firstName = Some ''Ada'',
      prof_lastName = Some ''Byron'', prof_bio = None\<rparr>"

definition sampleBilling :: "string \<Rightarrow> jsdate option \<Rightarrow> string \<Rightarrow> jsdate option \<Rightarrow> billing" where
  "sampleBilling plan next st cancelled =
     \<lparr>bill_id = 5, bill_userId = 3, bill_applicationId = 2, bill_stripeCustomerId = ''cus_A'',
      bill_stripeSubscriptionId = Some ''sub_A'', bill_billingType = plan,
      bill_billingDay = Some 15, bill_nextBillingDate = next, bill_amount = 8499 / 100,
      bill_initialAmount = Some (8499 / 100), bill_recurringAmount = Some (2499 / 100),
      bill_setupFee = Some 60, bill_customDesignFee = None, bill_currency = ''gbp'',
      bill_status = st, bill_cancelledAt = cancelled\<rparr>"

text \<open>
  The database after the application of \<open>pendingDb\<close> has been provisioned on the 15th of
  a month, with the billing row given.
\<close>

definition customerDb :: "billing \<Rightarrow> db" where
  "customerDb b =
     \<lparr>applications =
        [(pendingApplication 2 (bill_billingType b) ''cs_A'')
           \<lparr>app_userId := Some 3, app_processed := True,
            app_processedAt := Some (noon 2025 0 15), app_status := ''completed'',
            app_tempPassword := Some ''bcrypt(aB3kL9mQ2xZ!)''\<rparr>],
      users = [sampleUser], profiles = [sampleProfile], billings = [b],
      tenants = [sampleTenant], nextId = 6\<rparr>"

text \<open>
  The same customer checks out a second time with the same email address: a second, pending
  application for the session \<open>cs_B\<close>.
\<close>

definition returningCustomerDb :: db where
  "returningCustomerDb =
     (let s = customerDb (sampleBilling ''monthly'' (Some (midnight 2025 1 15)) ''active'' None)
      in s\<lparr>applications := applications s @ [pendingApplication 6 ''monthly'' ''cs_B''],
            nextId := 7\<rparr>)"

text \<open>
  A user who registered directly (a User row without Profile, Billing or Application) and
  then checks out with the same email address: a pending application for session \<open>cs_A\<close>.
\<close>

definition registeredUserDb :: db where
  "registeredUserDb =
     \<lparr>applications = [pendingApplication 2 ''monthly'' ''cs_A''], users = [sampleUser],
      profiles = [], billings = [], tenants = [sampleTenant], nextId = 4\<rparr>"

definition emptyDb :: db where
  "emptyDb = \<lparr>applications = [], users = [], profiles = [], billings = [], tenants = [],
              nextId = 1\<rparr>"

definition worldOf :: "db \<Rightarrow> world" where
  "worldOf s = \<lparr>w_db = s, w_refundCalls = [], w_refundNotices = [], w_alerts = []\<rparr>"

section \<open>General facts\<close>

declare rollDays.simps [simp del]

lemmas sample_defs = sampleEnv_def sampleSession_def sampleTenant_def pendingApplication_def
  pendingDb_def noFaults_def faultAt_def noon_def midnight_def customerDb_def sampleBilling_def
  sampleUser_def sampleProfile_def returningCustomerDb_def registeredUserDb_def emptyDb_def
  worldOf_def

lemmas provision_defs = processPaymentAndCreateUser_def transaction_def provisionBody_def
  bindT_def returnT_def throwT_def at_step_def application_findFirst_def user_findUnique_def
  application_update_def getDefaultTenant_def tenant_findFirst_def tenant_create_def
  user_create_def profile_create_def billing_create_def newBillingRow_def

lemmas date_defs = calculateNextBillingDate_def newDate_def setDate_def makeFullYear_def
  rollDays.simps daysInMonth_def isLeapYear_def


lemmas billing_defs = billing_findUnique_subscription_def billing_findUnique_userId_def
  billing_findUnique_id_def billing_update_def at_step_def

lemma find_map_keep:
  assumes "\<And>x. P (f x) = P x"
  shows "find P (map f xs) = map_option f (find P xs)"
  using assms by (induction xs) auto

lemma find_Some_mem: "find P xs = Some x \<Longrightarrow> x \<in> set xs"
  by (induction xs) (auto split: if_splits)

lemma find_same_key:
  assumes "find P xs = Some b"
  shows "\<exists>b0. find (\<lambda>x. f x = f b) xs = Some b0"
  using find_Some_mem [OF assms]
  by (cases "find (\<lambda>x. f x = f b) xs") (auto simp: find_None_iff)

lemma find_unique_key:
  assumes "distinct (map f xs)" and "find (\<lambda>x. f x = k) xs = Some b"
    and "x \<in> set xs" and "f x = k"
  shows "x = b"
proof -
  have "b \<in> set xs" and "f b = k"
    using assms(2) by (auto simp: find_Some_iff)
  moreover have "inj_on f (set xs)" using assms(1) by (simp add: distinct_map)
  ultimately show ?thesis using assms(3,4) by (auto dest: inj_onD)
qed


subsection \<open>Preservation through the combinators\<close>

lemma preserves_returnT: "preserves P (returnT x)"
  by (simp add: preserves_def returnT_def)

lemma preserves_throwT: "preserves P (throwT x)"
  by (simp add: preserves_def throwT_def)

lemma preserves_bindT:
  assumes "preserves P m" and "\<And>x. preserves P (f x)"
  shows "preserves P (bindT m f)"
  unfolding preserves_def bindT_def
proof (intro allI impI)
  fix s assume P: "P s"
  obtain r s' where ms: "m s = (r, s')" by (cases "m s")
  have P': "P s'" using assms(1) P ms by (auto simp: preserves_def dest: spec [of _ s])
  show "P (snd (case m s of (Inl e, s') \<Rightarrow> (Inl e, s') | (Inr x, s') \<Rightarrow> f x s'))"
  proof (cases r)
    case (Inl e)
    then show ?thesis using ms P' by simp
  next
    case (Inr x)
    then show ?thesis using ms P' assms(2) [of x] by (simp add: preserves_def)
  qed
qed

lemma preserves_at_step:
  assumes "preserves P m"
  shows "preserves P (at_step e st m)"
  using assms by (simp add: preserves_def at_step_def)

lemma preserves_option:
  assumes "preserves P a" and "\<And>x. preserves P (b x)"
  shows "preserves P (case v of None \<Rightarrow> a | Some x \<Rightarrow> b x)"
  using assms by (cases v) simp_all

lemma preserves_if:
  assumes "c \<Longrightarrow> preserves P a" and "\<not> c \<Longrightarrow> preserves P b"
  shows "preserves P (if c then a else b)"
  using assms by simp

lemma preserves_transaction:
  assumes "preserves P body"
  shows "preserves P (transaction e body)"
  unfolding preserves_def transaction_def
proof (intro allI impI)
  fix s assume P: "P s"
  obtain r s' where b: "body s = (r, s')" by (cases "body s")
  have "P s'" using assms P b by (auto simp: preserves_def dest: spec [of _ s])
  then show "P (snd (case body s of (Inl err, s') \<Rightarrow> (Inl err, s)
        | (Inr v, s') \<Rightarrow> if env_faults e Commit then (Inl TransactionTimeout, s) else (Inr v, s')))"
    using P b by (cases r) simp_all
qed


section \<open>The cancellation invariant\<close>

lemma preserves_same_billings:
  assumes "\<And>s. billings (snd (m s)) = billings s"
  shows "preserves billings_ok m"
  using assms by (simp add: preserves_def billings_ok_def)

lemma ok_application_findFirst: "preserves billings_ok (application_findFirst e sid)"
  by (rule preserves_same_billings) (simp add: application_findFirst_def at_step_def)

lemma ok_user_findUnique: "preserves billings_ok (user_findUnique e em)"
  by (rule preserves_same_billings) (simp add: user_findUnique_def at_step_def)

lemma ok_application_update: "preserves billings_ok (application_update e aid upd)"
  by (rule preserves_same_billings)
     (simp add: application_update_def at_step_def split: option.splits)

lemma ok_getDefaultTenant: "preserves billings_ok (getDefaultTenant e)"
  by (rule preserves_same_billings)
     (simp add: getDefaultTenant_def bindT_def tenant_findFirst_def tenant_create_def
        at_step_def returnT_def Let_def split: list.splits)

lemma ok_user_create: "preserves billings_ok (user_create e em pw pr t)"
  by (rule preserves_same_billings) (simp add: user_create_def at_step_def Let_def)

lemma ok_profile_create: "preserves billings_ok (profile_create e u f l b)"
  by (rule preserves_same_billings) (simp add: profile_create_def at_step_def Let_def)

lemma ok_billing_create:
  assumes "bill_status row \<noteq> ''cancelled''"
  shows "preserves billings_ok (billing_create e c row)"
  using assms
  by (simp add: preserves_def billing_create_def at_step_def Let_def billings_ok_def
      billing_ok_def split: option.splits)

lemma newBillingRow_active: "bill_status (newBillingRow e sess a u) = ''active''"
  by (simp add: newBillingRow_def Let_def)

lemma ok_provisionBody: "preserves billings_ok (provisionBody e sid sess)"
  unfolding provisionBody_def
  by (intro preserves_bindT preserves_option preserves_if preserves_returnT preserves_throwT
      ok_application_findFirst ok_user_findUnique ok_application_update ok_getDefaultTenant
      ok_user_create ok_profile_create ok_billing_create)
     (simp add: newBillingRow_active)

lemma ok_processPaymentAndCreateUser:
  "preserves billings_ok (processPaymentAndCreateUser e sid sess)"
proof -
  have "snd (processPaymentAndCreateUser e sid sess s) =
        snd (transaction e (provisionBody e sid sess) s)" for s
    by (simp add: processPaymentAndCreateUser_def split: prod.splits sum.splits)
  then show ?thesis
    using preserves_transaction [OF ok_provisionBody, of e e sid sess]
    by (simp add: preserves_def)
qed

lemma ok_billing_update:
  assumes "\<And>x. billing_ok x \<Longrightarrow> billing_ok (upd x)"
  shows "preserves billings_ok (billing_update e sel upd)"
  using assms
  by (auto simp: preserves_def billing_update_def at_step_def billings_ok_def list_all_iff
      split: option.splits)

lemma ok_billing_find_sub: "preserves billings_ok (billing_findUnique_subscription e x)"
  by (rule preserves_same_billings) (simp add: billing_findUnique_subscription_def at_step_def)

lemma ok_billing_find_user: "preserves billings_ok (billing_findUnique_userId e x)"
  by (rule preserves_same_billings) (simp add: billing_findUnique_userId_def at_step_def)

lemma ok_billing_find_id: "preserves billings_ok (billing_findUnique_id e x)"
  by (rule preserves_same_billings) (simp add: billing_findUnique_id_def at_step_def)

lemma ok_stripe_update: "preserves billings_ok (stripe_subscriptions_update e x)"
  by (rule preserves_same_billings) (simp add: stripe_subscriptions_update_def split: option.splits)

lemma billing_update_swallow:
  "(case billing_update e sel upd s of (Inl err, s') \<Rightarrow> s | (Inr b, s') \<Rightarrow> s') =
   snd (billing_update e sel upd s)"
  by (simp add: billing_update_def at_step_def split: option.splits)

lemma billing_update_swallow2:
  "(case fst (billing_update e sel upd s) of Inl err \<Rightarrow> s
    | Inr b \<Rightarrow> snd (billing_update e sel upd s)) = snd (billing_update e sel upd s)"
  by (simp add: billing_update_def at_step_def split: option.splits)

lemma ok_billing_update_snd:
  assumes "\<And>x. billing_ok x \<Longrightarrow> billing_ok (upd x)" and "billings_ok s"
  shows "billings_ok (snd (billing_update e sel upd s))"
proof -
  have "preserves billings_ok (billing_update e sel upd)"
    by (rule ok_billing_update) (rule assms(1))
  then show ?thesis using assms(2) by (simp add: preserves_def)
qed

lemma subscriptionTarget_ok:
  assumes "fst (subscriptionTarget now sub b) = ''cancelled''"
  shows "snd (subscriptionTarget now sub b) \<noteq> None"
  using assms by (auto simp: subscriptionTarget_def split: if_splits option.splits)

lemma ok_handleSubscriptionUpdated:
  assumes "billings_ok s"
  shows "billings_ok (handleSubscriptionUpdated e sub s)"
proof -
  have "billings_ok (snd (billing_update e sel
          (\<lambda>x. x\<lparr>bill_status := fst (subscriptionTarget (env_now e) sub b),
                 bill_cancelledAt := snd (subscriptionTarget (env_now e) sub b)\<rparr>) s))" for sel b
  proof (rule ok_billing_update_snd [OF _ assms])
    fix x
    show "billing_ok (x\<lparr>bill_status := fst (subscriptionTarget (env_now e) sub b),
                         bill_cancelledAt := snd (subscriptionTarget (env_now e) sub b)\<rparr>)"
      using subscriptionTarget_ok [of "env_now e" sub b] by (simp add: billing_ok_def)
  qed
  then show ?thesis
    using assms
    by (simp add: handleSubscriptionUpdated_def billing_findUnique_subscription_def at_step_def
        billing_update_swallow billing_update_swallow2 case_prod_beta split: option.splits)
qed

lemma ok_handleSubscriptionDeleted:
  assumes "billings_ok s"
  shows "billings_ok (handleSubscriptionDeleted e sub s)"
proof -
  have "billings_ok (snd (billing_update e sel
          (\<lambda>x. x\<lparr>bill_status := ''cancelled'', bill_cancelledAt := Some (env_now e)\<rparr>) s))" for sel
    by (rule ok_billing_update_snd [OF _ assms]) (simp add: billing_ok_def)
  then show ?thesis
    using assms
    by (simp add: handleSubscriptionDeleted_def billing_findUnique_subscription_def at_step_def
        billing_update_swallow split: option.splits)
qed

lemma ok_handleInvoicePaymentSucceeded:
  assumes "billings_ok s"
  shows "billings_ok (handleInvoicePaymentSucceeded e invoice s)"
proof -
  have "billings_ok (snd (billing_update e sel
          (\<lambda>x. x\<lparr>bill_status := ''active'', bill_nextBillingDate := d\<rparr>) s))" for sel d
    by (rule ok_billing_update_snd [OF _ assms]) (simp add: billing_ok_def)
  then show ?thesis
    using assms
    by (simp add: handleInvoicePaymentSucceeded_def billing_findUnique_subscription_def
        at_step_def billing_update_swallow Let_def split: option.splits)
qed

lemma ok_handleInvoicePaymentFailed:
  assumes "billings_ok s"
  shows "billings_ok (handleInvoicePaymentFailed e invoice s)"
proof -
  have "billings_ok (snd (billing_update e sel (\<lambda>x. x\<lparr>bill_status := ''past_due''\<rparr>) s))" for sel
    by (rule ok_billing_update_snd [OF _ assms]) (simp add: billing_ok_def)
  then show ?thesis
    using assms
    by (simp add: handleInvoicePaymentFailed_def billing_findUnique_subscription_def
        at_step_def billing_update_swallow split: option.splits)
qed

lemma ok_cancelSubscription: "preserves billings_ok (cancelSubscription e uid)"
  unfolding cancelSubscription_def
  by (intro preserves_bindT preserves_option preserves_if preserves_throwT
      ok_billing_find_user ok_stripe_update ok_billing_update)
     (simp add: billing_ok_def)

lemma ok_reactivateSubscription: "preserves billings_ok (reactivateSubscription e uid)"
  unfolding reactivateSubscription_def
  by (intro preserves_bindT preserves_option preserves_if preserves_throwT
      ok_billing_find_user ok_stripe_update ok_billing_update)
     (simp add: billing_ok_def)


text \<open>
  Claim C9.  Every operation that creates or changes a Billing row (provisioning, the
  handlers of the subscription state synchronizer, and the user-initiated cancel and
  reactivate actions) preserves the invariant: a row whose status is \<open>cancelled\<close> has a
  cancellation time.  This holds whether the operation succeeds or fails, and whichever
  faults occur.
\<close>

theorem cancelled_implies_cancelledAt_preserved:
  assumes "billings_ok s"
  shows "billings_ok (perform e opn s)"
proof (cases opn)
  case (Provision sid sess)
  then show ?thesis using assms ok_processPaymentAndCreateUser by (simp add: preserves_def)
next
  case (SubscriptionUpdated sub)
  then show ?thesis using assms by (simp add: ok_handleSubscriptionUpdated)
next
  case (SubscriptionDeleted sub)
  then show ?thesis using assms by (simp add: ok_handleSubscriptionDeleted)
next
  case (InvoicePaymentSucceeded i)
  then show ?thesis using assms by (simp add: ok_handleInvoicePaymentSucceeded)
next
  case (InvoicePaymentFailed i)
  then show ?thesis using assms by (simp add: ok_handleInvoicePaymentFailed)
next
  case (CancelSubscription u)
  then show ?thesis using assms ok_cancelSubscription by (simp add: preserves_def)
next
  case (ReactivateSubscription u)
  then show ?thesis using assms ok_reactivateSubscription by (simp add: preserves_def)
qed

text \<open>
  The invariant at work: an active row without a cancellation time satisfies it, and after
  \<open>subscription_deleted\<close> the row is cancelled and carries the time of the event.
\<close>

theorem cancelled_implies_cancelledAt_preserved_witness:
  "billings_ok (customerDb (sampleBilling ''monthly'' (Some (midnight 2025 1 15)) ''active'' None))
   \<and> billings_ok (perform (sampleEnv (noon 2025 0 20) noFaults)
        (SubscriptionDeleted \<lparr>sub_id = ''sub_A'', sub_status = ''canceled'',
                               sub_cancel_at_period_end = False\<rparr>)
        (customerDb (sampleBilling ''monthly'' (Some (midnight 2025 1 15)) ''active'' None)))
   \<and> map (\<lambda>b. (bill_status b, bill_cancelledAt b))
        (billings (perform (sampleEnv (noon 2025 0 20) noFaults)
          (SubscriptionDeleted \<lparr>sub_id = ''sub_A'', sub_status = ''canceled'',
                                 sub_cancel_at_period_end = False\<rparr>)
          (customerDb (sampleBilling ''monthly'' (Some (midnight 2025 1 15)) ''active'' None))))
      = [(''cancelled'', Some (noon 2025 0 20))]"
proof -
  have h: "billings_ok (customerDb (sampleBilling ''monthly'' (Some (midnight 2025 1 15)) ''active'' None))"
    by (simp add: billings_ok_def billing_ok_def sample_defs)
  have v: "map (\<lambda>b. (bill_status b, bill_cancelledAt b))
        (billings (perform (sampleEnv (noon 2025 0 20) noFaults)
          (SubscriptionDeleted \<lparr>sub_id = ''sub_A'', sub_status = ''canceled'',
                                 sub_cancel_at_period_end = False\<rparr>)
          (customerDb (sampleBilling ''monthly'' (Some (midnight 2025 1 15)) ''active'' None))))
      = [(''cancelled'', Some (noon 2025 0 20))]"
    by (simp add: handleSubscriptionDeleted_def billing_defs sample_defs)
  from cancelled_implies_cancelledAt_preserved [OF h, of "sampleEnv (noon 2025 0 20) noFaults"
      "SubscriptionDeleted \<lparr>sub_id = ''sub_A'', sub_status = ''canceled'',
                             sub_cancel_at_period_end = False\<rparr>"] h v
  show ?thesis by simp
qed

text \<open>
  The administrative status change reads the row and then writes it by id; it preserves the
  invariant as well, given that ids identify rows.
\<close>

lemma updateBillingStatus_unfold:
  "updateBillingStatus e bid st s =
     (if env_faults e FindBilling then (Inl (Fault FindBilling), s)
      else case find (\<lambda>x. bill_id x = bid) (billings s) of
             None \<Rightarrow> (Inl RecordNotFound, s)
           | Some b \<Rightarrow>
               billing_update e (\<lambda>x. bill_id x = bid)
                 (\<lambda>x. if st = ''cancelled'' \<and> bill_cancelledAt b = None
                       then x\<lparr>bill_status := st, bill_cancelledAt := Some (env_now e)\<rparr>
                       else x\<lparr>bill_status := st\<rparr>) s)"
  by (simp add: updateBillingStatus_def bindT_def billing_findUnique_id_def at_step_def
      throwT_def split: option.splits)

lemma ok_billing_update_sel:
  assumes "\<And>x. x \<in> set (billings s) \<Longrightarrow> sel x \<Longrightarrow> billing_ok (upd x)"
    and "billings_ok s"
  shows "billings_ok (snd (billing_update e sel upd s))"
  using assms
  by (auto simp: billing_update_def at_step_def billings_ok_def list_all_iff split: option.splits)

lemma ok_updateBillingStatus:
  assumes d: "distinct (map bill_id (billings s))" and ok: "billings_ok s"
  shows "billings_ok (snd (updateBillingStatus e bid st s))"
proof (cases "find (\<lambda>x. bill_id x = bid) (billings s)")
  case None
  then show ?thesis using ok by (simp add: updateBillingStatus_unfold)
next
  case (Some b)
  let ?upd = "\<lambda>x. if st = ''cancelled'' \<and> bill_cancelledAt b = None
                   then x\<lparr>bill_status := st, bill_cancelledAt := Some (env_now e)\<rparr>
                   else x\<lparr>bill_status := st\<rparr>"
  have okb: "billing_ok b"
    using ok Some by (auto simp: billings_ok_def list_all_iff find_Some_iff)
  have "billings_ok (snd (billing_update e (\<lambda>x. bill_id x = bid) ?upd s))"
  proof (rule ok_billing_update_sel [OF _ ok])
    fix x assume "x \<in> set (billings s)" "bill_id x = bid"
    then have "x = b" by (rule find_unique_key [OF d Some])
    then show "billing_ok (?upd x)" using okb by (auto simp: billing_ok_def)
  qed
  then show ?thesis
    using ok Some by (simp add: updateBillingStatus_unfold)
qed


section \<open>The next billing date\<close>

lemma daysInMonth_bounds: "28 \<le> daysInMonth y m \<and> daysInMonth y m \<le> 31"
  by (simp add: daysInMonth_def)

lemma leap_year_mod4:
  assumes "isLeapYear y"
  shows "y mod 4 = 0"
proof -
  have "(y mod 400) mod 4 = y mod 4" by (rule mod_mod_cancel) simp
  then show ?thesis using assms by (auto simp: isLeapYear_def)
qed

lemma leap_year_successor:
  assumes "isLeapYear y"
  shows "\<not> isLeapYear (y + 1)"
proof
  assume "isLeapYear (y + 1)"
  then have "(y + 1) mod 4 = 0" by (rule leap_year_mod4)
  moreover have "y mod 4 = 0" using assms by (rule leap_year_mod4)
  ultimately show False by presburger
qed

lemma rollDays_within:
  assumes "d \<le> daysInMonth y m"
  shows "rollDays y m d = \<lparr>year = y, month = m, day = d, ms = 0\<rparr>"
  using assms by (subst rollDays.simps) simp

lemma rollDays_next:
  assumes "daysInMonth y m < d" and "m < 11" and "d - daysInMonth y m \<le> daysInMonth y (m + 1)"
  shows "rollDays y m d = \<lparr>year = y, month = m + 1, day = d - daysInMonth y m, ms = 0\<rparr>"
proof -
  have "rollDays y m d = rollDays y (m + 1) (d - daysInMonth y m)"
    using assms(1,2) by (subst rollDays.simps) simp
  then show ?thesis using assms(3) by (simp add: rollDays_within)
qed

lemma short_month_has_successor:
  assumes "daysInMonth y m < 31"
  shows "m < 11 \<and> daysInMonth y (m + 1) = 31"
  using assms by (auto simp: daysInMonth_def split: if_splits)

lemma monthly_next_billing_date:
  assumes m: "month now < 12" and d: "1 \<le> d" "d \<le> 31" and y: "100 \<le> year now"
  shows "calculateNextBillingDate now d False =
           \<lparr>year = (if month now = 11 then year now + 1 else year now),
            month = (month now + 1) mod 12,
            day = min d (daysInMonth (if month now = 11 then year now + 1 else year now)
                           ((month now + 1) mod 12)),
            ms = 0\<rparr>"
proof -
  let ?y = "if month now = 11 then year now + 1 else year now"
  let ?m = "(month now + 1) mod 12"
  have div: "makeFullYear (year now) + int ((month now + 1) div 12) = ?y"
    using m y by (auto simp: makeFullYear_def)
  have nd: "newDate (year now) (month now + 1) d = rollDays ?y ?m d"
    using d(1) div by (simp add: newDate_def Let_def)
  show ?thesis
  proof (cases "d \<le> daysInMonth ?y ?m")
    case True
    then have "newDate (year now) (month now + 1) d = \<lparr>year = ?y, month = ?m, day = d, ms = 0\<rparr>"
      using nd by (simp add: rollDays_within)
    then show ?thesis using True by (simp add: calculateNextBillingDate_def Let_def min_def)
  next
    case False
    then have short: "daysInMonth ?y ?m < 31" using d(2) by simp
    from short_month_has_successor [OF short]
    have succ: "?m < 11" "daysInMonth ?y (?m + 1) = 31" by simp_all
    have lo: "28 \<le> daysInMonth ?y ?m" using daysInMonth_bounds by blast
    have "rollDays ?y ?m d = \<lparr>year = ?y, month = ?m + 1, day = d - daysInMonth ?y ?m, ms = 0\<rparr>"
      using False succ d(2) by (intro rollDays_next) simp_all
    then have nd': "newDate (year now) (month now + 1) d =
                \<lparr>year = ?y, month = ?m + 1, day = d - daysInMonth ?y ?m, ms = 0\<rparr>"
      using nd by simp
    have neq: "d - daysInMonth ?y ?m \<noteq> d" using lo d(1) by simp
    show ?thesis
      using nd' neq False
      by (simp add: calculateNextBillingDate_def setDate_def Let_def min_def)
  qed
qed

lemma annual_next_billing_date:
  assumes v: "validDate now" and y: "100 \<le> year now"
  shows "calculateNextBillingDate now (day now) True =
           (if month now = 1 \<and> day now = 29
            then \<lparr>year = year now + 1, month = 2, day = 1, ms = 0\<rparr>
            else \<lparr>year = year now + 1, month = month now, day = day now, ms = 0\<rparr>)"
proof -
  have m: "month now < 12" and d: "1 \<le> day now" "day now \<le> daysInMonth (year now) (month now)"
    using v by (simp_all add: validDate_def)
  have nd: "newDate (year now + 1) (month now) (day now) = rollDays (year now + 1) (month now) (day now)"
    using m d(1) y by (simp add: newDate_def makeFullYear_def Let_def)
  show ?thesis
  proof (cases "month now = 1 \<and> day now = 29")
    case True
    then have leap: "isLeapYear (year now)" using d(2) by (auto simp: daysInMonth_def split: if_splits)
    have "\<not> isLeapYear (year now + 1)"
      using leap by (rule leap_year_successor)
    then have "daysInMonth (year now + 1) 1 = 28" by (simp add: daysInMonth_def)
    then have "rollDays (year now + 1) 1 29 = \<lparr>year = year now + 1, month = 2, day = 1, ms = 0\<rparr>"
      using rollDays_next [of "year now + 1" 1 29] by (simp add: daysInMonth_def)
    then show ?thesis using True nd by (simp add: calculateNextBillingDate_def)
  next
    case False
    have "day now \<le> daysInMonth (year now + 1) (month now)"
      using False d(2) by (auto simp: daysInMonth_def split: if_splits)
    then show ?thesis using False nd by (simp add: calculateNextBillingDate_def rollDays_within)
  qed
qed



lemma date_gt_asym: "date_gt a b \<Longrightarrow> \<not> date_gt b a"
  by (auto simp: date_gt_def)

section \<open>Subscription events\<close>

lemma billing_update_result:
  assumes "\<not> env_faults e UpdateBilling" and "find sel (billings s) = Some b"
  shows "billing_update e sel upd s =
           (Inr (upd b), s\<lparr>billings := map (\<lambda>x. if sel x then upd x else x) (billings s)\<rparr>)"
  using assms by (simp add: billing_update_def at_step_def)

lemma handleSubscriptionUpdated_found:
  assumes f: "find (\<lambda>x. bill_stripeSubscriptionId x = Some (sub_id sub)) (billings s) = Some b"
    and nf: "\<not> env_faults e FindBilling" "\<not> env_faults e UpdateBilling"
  shows "handleSubscriptionUpdated e sub s =
           s\<lparr>billings := map (\<lambda>x. if bill_id x = bill_id b
                                   then x\<lparr>bill_status := fst (subscriptionTarget (env_now e) sub b),
                                          bill_cancelledAt := snd (subscriptionTarget (env_now e) sub b)\<rparr>
                                   else x) (billings s)\<rparr>"
proof -
  from find_same_key [OF f, of bill_id]
  obtain b0 where b0: "find (\<lambda>x. bill_id x = bill_id b) (billings s) = Some b0" ..
  show ?thesis
    using f nf
    by (simp add: handleSubscriptionUpdated_def billing_findUnique_subscription_def at_step_def
        billing_update_result [OF nf(2) b0] split: prod.splits)
qed

lemma handleSubscriptionUpdated_row:
  assumes f: "find (\<lambda>x. bill_stripeSubscriptionId x = Some (sub_id sub)) (billings s) = Some b"
    and nf: "\<not> env_faults e FindBilling" "\<not> env_faults e UpdateBilling"
  shows "find (\<lambda>x. bill_stripeSubscriptionId x = Some (sub_id sub))
           (billings (handleSubscriptionUpdated e sub s)) =
         Some (b\<lparr>bill_status := fst (subscriptionTarget (env_now e) sub b),
                 bill_cancelledAt := snd (subscriptionTarget (env_now e) sub b)\<rparr>)"
proof -
  let ?P = "\<lambda>x. bill_stripeSubscriptionId x = Some (sub_id sub)"
  let ?f = "\<lambda>x. if bill_id x = bill_id b
                 then x\<lparr>bill_status := fst (subscriptionTarget (env_now e) sub b),
                        bill_cancelledAt := snd (subscriptionTarget (env_now e) sub b)\<rparr>
                 else x"
  have "find ?P (map ?f (billings s)) = map_option ?f (find ?P (billings s))"
    by (rule find_map_keep) simp
  then show ?thesis
    using f by (simp add: handleSubscriptionUpdated_found [OF f nf])
qed

text \<open>
  Claim C7.  A \<open>subscription_updated\<close> event with the cancel-at-period-end flag set, for a
  subscription reference that matches a Billing row, sets the row's status to \<open>cancelled\<close>,
  sets \<open>cancelledAt\<close> to the current time only if it was null (an earlier cancellation time
  stays), and leaves \<open>nextBillingDate\<close> and every other column of the row, every other
  row and every other table as they were.
\<close>

theorem cancel_at_period_end_keeps_first_cancellation:
  assumes f: "find (\<lambda>x. bill_stripeSubscriptionId x = Some (sub_id sub)) (billings s) = Some b"
    and flag: "sub_cancel_at_period_end sub"
    and nf: "\<not> env_faults e FindBilling" "\<not> env_faults e UpdateBilling"
  shows "(\<exists>b'. find (\<lambda>x. bill_stripeSubscriptionId x = Some (sub_id sub))
                 (billings (handleSubscriptionUpdated e sub s)) = Some b'
            \<and> bill_status b' = ''cancelled''
            \<and> bill_cancelledAt b' =
                (case bill_cancelledAt b of None \<Rightarrow> Some (env_now e) | Some t \<Rightarrow> Some t)
            \<and> bill_nextBillingDate b' = bill_nextBillingDate b
            \<and> b' = b\<lparr>bill_status := bill_status b', bill_cancelledAt := bill_cancelledAt b'\<rparr>)
       \<and> handleSubscriptionUpdated e sub s =
           s\<lparr>billings :=
               map (\<lambda>x. if bill_id x = bill_id b
                        then x\<lparr>bill_status := ''cancelled'',
                               bill_cancelledAt :=
                                 (case bill_cancelledAt b of None \<Rightarrow> Some (env_now e)
                                  | Some t \<Rightarrow> Some t)\<rparr>
                        else x) (billings s)\<rparr>"
proof -
  have tgt: "fst (subscriptionTarget (env_now e) sub b) = ''cancelled''"
       "snd (subscriptionTarget (env_now e) sub b) =
          (case bill_cancelledAt b of None \<Rightarrow> Some (env_now e) | Some t \<Rightarrow> Some t)"
    using flag by (simp_all add: subscriptionTarget_def)
  show ?thesis
    using handleSubscriptionUpdated_row [OF f nf] handleSubscriptionUpdated_found [OF f nf] tgt
    by simp
qed

text \<open>
  A row cancelled on 20 January keeps that time when the flagged event arrives on
  5 February; its next billing date stays 15 February.
\<close>

theorem cancel_at_period_end_keeps_first_cancellation_witness:
  "billings (handleSubscriptionUpdated (sampleEnv (noon 2025 1 5) noFaults)
      \<lparr>sub_id = ''sub_A'', sub_status = ''active'', sub_cancel_at_period_end = True\<rparr>
      (customerDb (sampleBilling ''monthly'' (Some (midnight 2025 1 15)) ''cancelled''
                     (Some (noon 2025 0 20)))))
   = [sampleBilling ''monthly'' (Some (midnight 2025 1 15)) ''cancelled'' (Some (noon 2025 0 20))]"
proof -
  let ?b = "sampleBilling ''monthly'' (Some (midnight 2025 1 15)) ''cancelled'' (Some (noon 2025 0 20))"
  let ?sub = "\<lparr>sub_id = ''sub_A'', sub_status = ''active'', sub_cancel_at_period_end = True\<rparr>"
  let ?e = "sampleEnv (noon 2025 1 5) noFaults"
  have f: "find (\<lambda>x. bill_stripeSubscriptionId x = Some (sub_id ?sub)) (billings (customerDb ?b))
           = Some ?b"
    by (simp add: sample_defs)
  have flag: "sub_cancel_at_period_end ?sub" by simp
  have nf: "\<not> env_faults ?e FindBilling" "\<not> env_faults ?e UpdateBilling"
    by (simp_all add: sample_defs)
  from cancel_at_period_end_keeps_first_cancellation [OF f flag nf]
  have "handleSubscriptionUpdated ?e ?sub (customerDb ?b) =
          (customerDb ?b)\<lparr>billings :=
               map (\<lambda>x. if bill_id x = bill_id ?b
                        then x\<lparr>bill_status := ''cancelled'',
                               bill_cancelledAt :=
                                 (case bill_cancelledAt ?b of None \<Rightarrow> Some (env_now ?e)
                                  | Some t \<Rightarrow> Some t)\<rparr>
                        else x) (billings (customerDb ?b))\<rparr>"
    by simp
  then show ?thesis by (simp add: sample_defs)
qed

text \<open>
  Claim C10.  A \<open>subscription_updated\<close> event without the cancel-at-period-end flag whose
  subscription status is \<open>canceled\<close> or \<open>unpaid\<close> sets the matching row's status to
  \<open>cancelled\<close> and writes the current time into \<open>cancelledAt\<close>, whatever was recorded
  there before.
\<close>

theorem ended_subscription_overwrites_cancellation_time:
  assumes f: "find (\<lambda>x. bill_stripeSubscriptionId x = Some (sub_id sub)) (billings s) = Some b"
    and flag: "\<not> sub_cancel_at_period_end sub"
    and st: "sub_status sub = ''canceled'' \<or> sub_status sub = ''unpaid''"
    and nf: "\<not> env_faults e FindBilling" "\<not> env_faults e UpdateBilling"
  shows "find (\<lambda>x. bill_stripeSubscriptionId x = Some (sub_id sub))
           (billings (handleSubscriptionUpdated e sub s))
         = Some (b\<lparr>bill_status := ''cancelled'', bill_cancelledAt := Some (env_now e)\<rparr>)"
proof -
  have "subscriptionTarget (env_now e) sub b = (''cancelled'', Some (env_now e))"
    using flag st by (auto simp: subscriptionTarget_def)
  then show ?thesis
    using handleSubscriptionUpdated_row [OF f nf] by simp
qed

text \<open>
  A row cancelled on 20 January: the event of 5 February with status \<open>canceled\<close> replaces
  the recorded time by 5 February.
\<close>

theorem ended_subscription_overwrites_cancellation_time_witness:
  "find (\<lambda>x. bill_stripeSubscriptionId x = Some ''sub_A'')
     (billings (handleSubscriptionUpdated (sampleEnv (noon 2025 1 5) noFaults)
        \<lparr>sub_id = ''sub_A'', sub_status = ''canceled'', sub_cancel_at_period_end = False\<rparr>
        (customerDb (sampleBilling ''monthly'' (Some (midnight 2025 1 15)) ''cancelled''
                       (Some (noon 2025 0 20))))))
   = Some (sampleBilling ''monthly'' (Some (midnight 2025 1 15)) ''cancelled''
             (Some (noon 2025 1 5)))"
proof -
  let ?b = "sampleBilling ''monthly'' (Some (midnight 2025 1 15)) ''cancelled'' (Some (noon 2025 0 20))"
  let ?sub = "\<lparr>sub_id = ''sub_A'', sub_status = ''canceled'', sub_cancel_at_period_end = False\<rparr>"
  let ?e = "sampleEnv (noon 2025 1 5) noFaults"
  have f: "find (\<lambda>x. bill_stripeSubscriptionId x = Some (sub_id ?sub)) (billings (customerDb ?b))
           = Some ?b"
    by (simp add: sample_defs)
  have flag: "\<not> sub_cancel_at_period_end ?sub" by simp
  have st: "sub_status ?sub = ''canceled'' \<or> sub_status ?sub = ''unpaid''" by simp
  have nf: "\<not> env_faults ?e FindBilling" "\<not> env_faults ?e UpdateBilling"
    by (simp_all add: sample_defs)
  from ended_subscription_overwrites_cancellation_time [OF f flag st nf]
  show ?thesis by (simp add: sample_defs)
qed

subsection \<open>Paid invoices\<close>

lemma invoice_paid_recomputes_as_monthly:
  assumes f: "find (\<lambda>x. bill_stripeSubscriptionId x = Some sid) (billings s) = Some b"
    and sid: "sid \<noteq> []" and inv: "inv_subscription invoice = Some sid"
    and d: "bill_billingDay b = Some d" "0 < d"
    and nf: "\<not> env_faults e FindBilling" "\<not> env_faults e UpdateBilling"
  shows "find (\<lambda>x. bill_stripeSubscriptionId x = Some sid)
           (billings (handleInvoicePaymentSucceeded e invoice s))
         = Some (b\<lparr>bill_status := ''active'',
                   bill_nextBillingDate := Some (calculateNextBillingDate (env_now e) d False)\<rparr>)"
proof -
  let ?P = "\<lambda>x. bill_stripeSubscriptionId x = Some sid"
  let ?f = "\<lambda>x. if bill_id x = bill_id b
                 then x\<lparr>bill_status := ''active'',
                        bill_nextBillingDate := Some (calculateNextBillingDate (env_now e) d False)\<rparr>
                 else x"
  from find_same_key [OF f, of bill_id]
  obtain b0 where b0: "find (\<lambda>x. bill_id x = bill_id b) (billings s) = Some b0" ..
  have "billings (handleInvoicePaymentSucceeded e invoice s) = map ?f (billings s)"
    using f sid inv d nf
    by (simp add: handleInvoicePaymentSucceeded_def billing_findUnique_subscription_def
        at_step_def billing_update_result [OF nf(2) b0])
  moreover have "find ?P (map ?f (billings s)) = map_option ?f (find ?P (billings s))"
    by (rule find_map_keep) simp
  ultimately show ?thesis using f by simp
qed

text \<open>
  Claim C6.  An \<open>invoice_paid\<close> event for a matching Billing row sets the status to
  \<open>active\<close> and recomputes the next billing date from the stored billing day.  The
  recomputation is one month ahead whatever the billing type is (lemma
  \<open>invoice_paid_recomputes_as_monthly\<close>), because the handler calls
  \<open>calculateNextBillingDate\<close> without its second argument.  For an annual row renewed
  on 15 January 2026 the code stores 15 February 2026, where the claim requires
  15 January 2027.
\<close>

theorem annual_invoice_advances_one_month:
  "map (\<lambda>b. (bill_billingType b, bill_status b, bill_nextBillingDate b))
     (billings (handleInvoicePaymentSucceeded (sampleEnv (noon 2026 0 15) noFaults)
        \<lparr>inv_id = ''in_A'', inv_subscription = Some ''sub_A''\<rparr>
        (customerDb (sampleBilling ''annual'' (Some (midnight 2026 0 15)) ''active'' None))))
   = [(''annual'', ''active'', Some (midnight 2026 1 15))]"
  by (simp add: sample_defs handleInvoicePaymentSucceeded_def billing_defs date_defs Let_def)

section \<open>Provisioning: what a successful call has done\<close>










section \<open>Redelivery\<close>











section \<open>Atomicity\<close>

text \<open>
  Claim C2.  Whenever \<open>processPaymentAndCreateUser\<close> fails (the application is not
  found, a constraint is violated, the transaction times out, or a fault strikes after the
  User row has been written and before the Billing row is), the database afterwards is the
  database before: no User, Profile or Billing row of that invocation remains and the
  Application row is unchanged.
\<close>

theorem failed_provisioning_leaves_no_trace:
  assumes "fst (processPaymentAndCreateUser e sid sess s) = Inl err"
  shows "snd (processPaymentAndCreateUser e sid sess s) = s"
  using assms
  by (auto simp: processPaymentAndCreateUser_def transaction_def
      split: prod.splits sum.splits if_splits)

text \<open>
  A fault at the creation of the Billing row: the body of the transaction has written the
  User row by then, and the failed call leaves the database as it was.
\<close>

theorem failed_provisioning_leaves_no_trace_witness:
  "fst (processPaymentAndCreateUser (sampleEnv (noon 2025 0 15) (faultAt CreateBilling)) ''cs_A''
          (sampleSession ''cs_A'' ''cus_A'' ''sub_A'') (pendingDb ''monthly''))
     = Inl (FailedToProcessPayment (Fault CreateBilling))
   \<and> users (snd (provisionBody (sampleEnv (noon 2025 0 15) (faultAt CreateBilling)) ''cs_A''
          (sampleSession ''cs_A'' ''cus_A'' ''sub_A'') (pendingDb ''monthly''))) = [sampleUser]
   \<and> snd (processPaymentAndCreateUser (sampleEnv (noon 2025 0 15) (faultAt CreateBilling)) ''cs_A''
          (sampleSession ''cs_A'' ''cus_A'' ''sub_A'') (pendingDb ''monthly''))
     = pendingDb ''monthly''"
proof -
  have h: "fst (processPaymentAndCreateUser (sampleEnv (noon 2025 0 15) (faultAt CreateBilling))
            ''cs_A'' (sampleSession ''cs_A'' ''cus_A'' ''sub_A'') (pendingDb ''monthly''))
          = Inl (FailedToProcessPayment (Fault CreateBilling))"
    by (simp add: sample_defs provision_defs Let_def)
  have partial: "users (snd (provisionBody (sampleEnv (noon 2025 0 15) (faultAt CreateBilling))
          ''cs_A'' (sampleSession ''cs_A'' ''cus_A'' ''sub_A'') (pendingDb ''monthly''))) = [sampleUser]"
    by (simp add: sample_defs provision_defs Let_def)
  from failed_provisioning_leaves_no_trace [OF h] h partial show ?thesis by simp
qed


section \<open>Email collision\<close>

text \<open>
  When the existing user is not yet linked to another application, the application is
  linked to that user, marked processed and completed, and nothing else changes.
\<close>

lemma existing_user_is_linked:
  assumes fa: "find (\<lambda>a. app_stripeSessionId a = Some sid) (applications s) = Some a"
    and np: "\<not> app_processed a"
    and fu: "find (\<lambda>u. user_email u = app_email a) (users s) = Some eu"
    and free: "\<forall>x \<in> set (applications s). app_id x = app_id a \<or> app_userId x \<noteq> Some (user_id eu)"
    and nf: "\<not> env_faults e FindApplication" "\<not> env_faults e FindUser"
            "\<not> env_faults e UpdateApplication" "\<not> env_faults e Commit"
  shows "processPaymentAndCreateUser e sid sess s =
           (Inr (userExistsOutcome (user_id eu)),
            s\<lparr>applications :=
                 map (\<lambda>x. if app_id x = app_id a then linked e (user_id eu) x else x)
                   (applications s)\<rparr>)"
proof -
  from find_same_key [OF fa, of app_id]
  obtain a0 where a0: "find (\<lambda>x. app_id x = app_id a) (applications s) = Some a0" ..
  have up: "application_update e (app_id a) (linked e (user_id eu)) s =
              (Inr (linked e (user_id eu) a0),
               s\<lparr>applications :=
                    map (\<lambda>x. if app_id x = app_id a then linked e (user_id eu) x else x)
                      (applications s)\<rparr>)"
    using a0 free nf(3) by (auto simp: application_update_def at_step_def linked_def)
  have "linked e (user_id eu) =
          (\<lambda>a. a\<lparr>app_userId := Some (user_id eu), app_processed := True,
                 app_processedAt := Some (env_now e), app_status := ''completed''\<rparr>)"
    by (simp add: linked_def fun_eq_iff)
  then show ?thesis
    using fa np fu nf up
    by (simp add: processPaymentAndCreateUser_def transaction_def provisionBody_def bindT_def
        application_findFirst_def user_findUnique_def at_step_def returnT_def)
qed


text \<open>
  Claim C4.  For an unprocessed application whose email belongs to an existing user, the
  call creates no User, Profile or Billing row, links the application to that user, marks
  it processed and completed, and returns the already-existed outcome without a password.
  The column \<open>applications.userId\<close> is unique, so the link is refused when the user is
  already linked to an application, which is the case for every user this pipeline created:
  a customer who checks out again with the same email gets an error, and the application
  stays pending and unlinked.
\<close>

theorem returning_customer_is_rejected:
  "processPaymentAndCreateUser (sampleEnv (noon 2025 5 1) noFaults) ''cs_B''
     (sampleSession ''cs_B'' ''cus_B'' ''sub_B'') returningCustomerDb
   = (Inl (FailedToProcessPayment (UniqueConstraint ''applications_userId_key'')),
      returningCustomerDb)"
  by (simp add: sample_defs provision_defs Let_def)


section \<open>First billing date\<close>

text \<open>
  Claim C5.  At first-time provisioning the next billing date is the provisioning day one
  period ahead, clamped to the last day of the target month.  The monthly branch does so
  (lemma \<open>monthly_next_billing_date\<close>).  The annual branch builds the date without the
  clamp (lemma \<open>annual_next_billing_date\<close>): an annual plan provisioned on
  29 February 2024 gets 1 March 2025 as its next billing date, not 28 February 2025.
\<close>

theorem annual_leap_day_rolls_into_march:
  "map (\<lambda>b. (bill_billingType b, bill_billingDay b, bill_nextBillingDate b))
     (billings (snd (processPaymentAndCreateUser (sampleEnv (noon 2024 1 29) noFaults) ''cs_A''
        (sampleSession ''cs_A'' ''cus_A'' ''sub_A'') (pendingDb ''annual''))))
   = [(''annual'', Some 29, Some (midnight 2025 2 1))]
   \<and> daysInMonth 2025 1 = 28"
  by (simp add: sample_defs provision_defs date_defs Let_def)

section \<open>Compensation\<close>













section \<open>Access\<close>

lemma getSubscriptionStatus_found:
  assumes "find (\<lambda>b. bill_userId b = uid) (billings s) = Some b"
    and "\<not> env_faults e FindBilling"
  shows "\<exists>d. getSubscriptionStatus e uid s = Inr (Subscription d)
            \<and> ss_status d = bill_status b
            \<and> ss_hasAccess d = hasAccessOf (env_now e) b"
  using assms
  by (simp add: getSubscriptionStatus_def billing_findUnique_userId_def at_step_def)

text \<open>
  Claim C8.  For a user with a Billing row, the subscription-status query reports
  \<open>hasAccess = true\<close> exactly when the status is \<open>active\<close>, or the status is
  \<open>cancelled\<close> and the next billing date lies in the future.  In particular, for a
  cancelled row with next billing date \<open>t\<close>, access is granted at every instant before
  \<open>t\<close> and denied at every instant after \<open>t\<close>, and the status reported is
  \<open>cancelled\<close> throughout.
\<close>

theorem access_follows_status_and_expiry:
  assumes fb: "find (\<lambda>b. bill_userId b = uid) (billings s) = Some b"
    and nf: "\<not> env_faults e FindBilling"
  shows "\<exists>d. getSubscriptionStatus e uid s = Inr (Subscription d)
            \<and> ss_status d = bill_status b
            \<and> (ss_hasAccess d = Some True \<longleftrightarrow>
                 (bill_status b = ''active'' \<or>
                  (bill_status b = ''cancelled'' \<and>
                   (\<exists>t. bill_nextBillingDate b = Some t \<and> date_gt t (env_now e)))))
            \<and> (\<forall>t. bill_status b = ''cancelled'' \<and> bill_nextBillingDate b = Some t \<longrightarrow>
                 (date_gt t (env_now e) \<longrightarrow> ss_hasAccess d = Some True) \<and>
                 (date_gt (env_now e) t \<longrightarrow> ss_hasAccess d = Some False))"
  using getSubscriptionStatus_found [OF fb nf]
  by (cases "bill_nextBillingDate b") (auto simp: hasAccessOf_def dest: date_gt_asym)


text \<open>
  A row cancelled with next billing date 15 February 2025, 00:00: access on 10 February,
  none on 16 February.
\<close>

theorem access_follows_status_and_expiry_witness:
  "(\<exists>d. getSubscriptionStatus (sampleEnv (noon 2025 1 10) noFaults) 3
           (customerDb (sampleBilling ''monthly'' (Some (midnight 2025 1 15)) ''cancelled''
                          (Some (noon 2025 0 20)))) = Inr (Subscription d)
        \<and> ss_status d = ''cancelled'' \<and> ss_hasAccess d = Some True)
   \<and> (\<exists>d. getSubscriptionStatus (sampleEnv (noon 2025 1 16) noFaults) 3
           (customerDb (sampleBilling ''monthly'' (Some (midnight 2025 1 15)) ''cancelled''
                          (Some (noon 2025 0 20)))) = Inr (Subscription d)
        \<and> ss_status d = ''cancelled'' \<and> ss_hasAccess d = Some False)"
proof -
  let ?b = "sampleBilling ''monthly'' (Some (midnight 2025 1 15)) ''cancelled'' (Some (noon 2025 0 20))"
  have f: "find (\<lambda>b. bill_userId b = 3) (billings (customerDb ?b)) = Some ?b"
    by (simp add: sample_defs)
  have nf: "\<not> env_faults (sampleEnv (noon 2025 1 10) noFaults) FindBilling"
    "\<not> env_faults (sampleEnv (noon 2025 1 16) noFaults) FindBilling"
    by (simp_all add: sample_defs)
  have st: "bill_status ?b = ''cancelled''" "bill_nextBillingDate ?b = Some (midnight 2025 1 15)"
    by (simp_all add: sample_defs)
  have before: "date_gt (midnight 2025 1 15) (env_now (sampleEnv (noon 2025 1 10) noFaults))"
    by (simp add: date_gt_def sample_defs)
  have after: "date_gt (env_now (sampleEnv (noon 2025 1 16) noFaults)) (midnight 2025 1 15)"
    by (simp add: date_gt_def sample_defs)
  from access_follows_status_and_expiry [OF f nf(1)] st before
  have one: "\<exists>d. getSubscriptionStatus (sampleEnv (noon 2025 1 10) noFaults) 3 (customerDb ?b)
                  = Inr (Subscription d)
               \<and> ss_status d = ''cancelled'' \<and> ss_hasAccess d = Some True"
    by auto
  from access_follows_status_and_expiry [OF f nf(2)] st after
  have two: "\<exists>d. getSubscriptionStatus (sampleEnv (noon 2025 1 16) noFaults) 3 (customerDb ?b)
                  = Inr (Subscription d)
               \<and> ss_status d = ''cancelled'' \<and> ss_hasAccess d = Some False"
    by auto
  from one two show ?thesis by simp
qed

text \<open>
  The user-initiated cancellation leaves the row cancelled with its next billing date in
  place, so the statement above applies to the database it returns.
\<close>

lemma cancelSubscription_Inr:
  assumes "cancelSubscription e uid s = (Inr b1, s1)"
  shows "\<exists>b. find (\<lambda>x. bill_userId x = uid) (billings s) = Some b
            \<and> find (\<lambda>x. bill_userId x = uid) (billings s1) =
                Some (b\<lparr>bill_status := ''cancelled'', bill_cancelledAt := Some (env_now e)\<rparr>)"
proof -
  let ?P = "\<lambda>x. bill_userId x = uid"
  let ?f = "\<lambda>x. if bill_userId x = uid
                 then x\<lparr>bill_status := ''cancelled'', bill_cancelledAt := Some (env_now e)\<rparr> else x"
  have keep: "find ?P (map ?f xs) = map_option ?f (find ?P xs)" for xs :: "billing list"
    by (rule find_map_keep) simp
  from assms obtain b where b: "find ?P (billings s) = Some b"
    and s1: "billings s1 = map ?f (billings s)"
    by (auto simp: cancelSubscription_def bindT_def billing_findUnique_userId_def at_step_def
        throwT_def stripe_subscriptions_update_def billing_update_def
        split: if_splits option.splits)
  have "?P b" using b by (auto simp: find_Some_iff)
  then show ?thesis using b s1 keep [of "billings s"] by simp
qed

lemma access_window_after_cancellation:
  assumes c: "cancelSubscription e0 uid s = (Inr b1, s1)"
    and nf: "\<not> env_faults e FindBilling"
  shows "\<exists>b d. find (\<lambda>x. bill_userId x = uid) (billings s) = Some b
            \<and> getSubscriptionStatus e uid s1 = Inr (Subscription d)
            \<and> ss_status d = ''cancelled''
            \<and> (\<forall>t. bill_nextBillingDate b = Some t \<longrightarrow>
                 (date_gt t (env_now e) \<longrightarrow> ss_hasAccess d = Some True) \<and>
                 (date_gt (env_now e) t \<longrightarrow> ss_hasAccess d = Some False))"
proof -
  from cancelSubscription_Inr [OF c]
  obtain b where b: "find (\<lambda>x. bill_userId x = uid) (billings s) = Some b"
    and b': "find (\<lambda>x. bill_userId x = uid) (billings s1) =
               Some (b\<lparr>bill_status := ''cancelled'', bill_cancelledAt := Some (env_now e0)\<rparr>)"
    by blast
  from getSubscriptionStatus_found [OF b' nf]
  obtain d where d: "getSubscriptionStatus e uid s1 = Inr (Subscription d)"
    "ss_status d = ''cancelled''"
    "ss_hasAccess d = hasAccessOf (env_now e)
       (b\<lparr>bill_status := ''cancelled'', bill_cancelledAt := Some (env_now e0)\<rparr>)"
    by auto
  have "(date_gt t (env_now e) \<longrightarrow> ss_hasAccess d = Some True) \<and>
        (date_gt (env_now e) t \<longrightarrow> ss_hasAccess d = Some False)"
    if "bill_nextBillingDate b = Some t" for t
    using that d(3) by (auto simp: hasAccessOf_def dest: date_gt_asym)
  then show ?thesis using b d(1,2) by blast
qed

end
